theory Spec2Isabelle
  imports Main
begin

section \<open>The JavaScript runtime, as a parameter\<close>

text \<open>
  \<^verbatim>\<open>src/main.ts\<close> computes on JavaScript numbers (IEEE-754 doubles). The primitives on
  them belong to the engine, not to the repository: \<^verbatim>\<open>parseFloat\<close>,
  \<^verbatim>\<open>Number.prototype.toString\<close> (also what a template literal applies to a number),
  the operators \<^verbatim>\<open>+ - * /\<close>, \<^verbatim>\<open>Math.pow\<close>, \<^verbatim>\<open>Math.sqrt\<close>, the tests
  \<^verbatim>\<open>b === 0\<close> and \<^verbatim>\<open>a < 0\<close>, and the literals \<^verbatim>\<open>0\<close> and \<^verbatim>\<open>1\<close> of the default
  parameters. The calculator is modelled over an arbitrary type \<open>'n\<close> of numbers and a
  record of these primitives, so a theorem stated for every runtime holds for the doubles
  of any engine.
\<close>

record 'n runtime =
  parseFloat :: "string \<Rightarrow> 'n"
  toString :: "'n \<Rightarrow> string"
  num_add :: "'n \<Rightarrow> 'n \<Rightarrow> 'n"
  num_sub :: "'n \<Rightarrow> 'n \<Rightarrow> 'n"
  num_mul :: "'n \<Rightarrow> 'n \<Rightarrow> 'n"
  num_div :: "'n \<Rightarrow> 'n \<Rightarrow> 'n"
  Math_pow :: "'n \<Rightarrow> 'n \<Rightarrow> 'n"
  Math_sqrt :: "'n \<Rightarrow> 'n"
  is_zero :: "'n \<Rightarrow> bool"
  is_negative :: "'n \<Rightarrow> bool"
  num_0 :: "'n"
  num_1 :: "'n"

section \<open>Operations (lines 1 to 24)\<close>

text \<open>
  An \<^verbatim>\<open>Operation\<close> is called with one or two numbers; a missing second argument is
  \<^verbatim>\<open>undefined\<close>, here \<open>None\<close>, and a default parameter \<^verbatim>\<open>b = 0\<close> replaces exactly that.
\<close>

definition default_to :: "'n \<Rightarrow> 'n option \<Rightarrow> 'n" where
  "default_to d b = (case b of None \<Rightarrow> d | Some y \<Rightarrow> y)"

definition add :: "'n runtime \<Rightarrow> 'n \<Rightarrow> 'n option \<Rightarrow> 'n" where
  "add rt a b = num_add rt a (default_to (num_0 rt) b)"

definition subtract :: "'n runtime \<Rightarrow> 'n \<Rightarrow> 'n option \<Rightarrow> 'n" where
  "subtract rt a b = num_sub rt a (default_to (num_0 rt) b)"

definition multiply :: "'n runtime \<Rightarrow> 'n \<Rightarrow> 'n option \<Rightarrow> 'n" where
  "multiply rt a b = num_mul rt a (default_to (num_1 rt) b)"

definition divide_op :: "'n runtime \<Rightarrow> 'n \<Rightarrow> 'n option \<Rightarrow> 'n" where
  "divide_op rt a b = num_div rt a (default_to (num_1 rt) b)"

definition power_op :: "'n runtime \<Rightarrow> 'n \<Rightarrow> 'n option \<Rightarrow> 'n" where
  "power_op rt a b = Math_pow rt a (default_to (num_1 rt) b)"

definition sqrt_op :: "'n runtime \<Rightarrow> 'n \<Rightarrow> 'n option \<Rightarrow> 'n" where
  "sqrt_op rt a b = Math_sqrt rt a"

text \<open>
  \<^verbatim>\<open>withValidation\<close> runs the check first; a \<^verbatim>\<open>throw new Error(m)\<close> in it is the result
  \<open>Inl m\<close>, and the wrapped operation is not called.
\<close>

definition withValidation ::
  "('n \<Rightarrow> 'n option \<Rightarrow> 'n) \<Rightarrow> ('n \<Rightarrow> 'n option \<Rightarrow> string option) \<Rightarrow>
   'n \<Rightarrow> 'n option \<Rightarrow> string + 'n" where
  "withValidation operation validate a b =
     (case validate a b of Some message \<Rightarrow> Inl message | None \<Rightarrow> Inr (operation a b))"

definition safeDivide :: "'n runtime \<Rightarrow> 'n \<Rightarrow> 'n option \<Rightarrow> string + 'n" where
  "safeDivide rt =
     withValidation (divide_op rt)
       (\<lambda>a b. case b of
          Some y \<Rightarrow> if is_zero rt y then Some ''Cannot divide by zero'' else None
        | None \<Rightarrow> None)"

definition safeSqrt :: "'n runtime \<Rightarrow> 'n \<Rightarrow> 'n option \<Rightarrow> string + 'n" where
  "safeSqrt rt =
     withValidation (sqrt_op rt)
       (\<lambda>a b. if is_negative rt a then Some ''Negative number under root'' else None)"

text \<open>
  The state stores a function reference. The references the program has are the eight
  constants above; a tag names each, and \<open>call\<close> applies the function a tag names.
\<close>

datatype Operation =
  Add | Subtract | Multiply | Divide | Power | Sqrt | SafeDivide | SafeSqrt

fun call :: "'n runtime \<Rightarrow> Operation \<Rightarrow> 'n \<Rightarrow> 'n option \<Rightarrow> string + 'n" where
  "call rt Add a b = Inr (add rt a b)"
| "call rt Subtract a b = Inr (subtract rt a b)"
| "call rt Multiply a b = Inr (multiply rt a b)"
| "call rt Divide a b = Inr (divide_op rt a b)"
| "call rt Power a b = Inr (power_op rt a b)"
| "call rt Sqrt a b = Inr (sqrt_op rt a b)"
| "call rt SafeDivide a b = safeDivide rt a b"
| "call rt SafeSqrt a b = safeSqrt rt a b"

section \<open>The calculator state and the page (lines 27 to 50, 72 to 77)\<close>

record 'n CalculatorState =
  currentValue :: string
  previousValue :: "'n option"
  operation :: "Operation option"
  shouldResetDisplay :: bool
  currentExpression :: string

text \<open>
  Besides \<^verbatim>\<open>state\<close>, the closures of \<^verbatim>\<open>createCalculator\<close> write the text of three
  elements of the page: \<^verbatim>\<open>display\<close>, \<^verbatim>\<open>expression\<close> and \<^verbatim>\<open>error\<close>. What they hold when
  the calculator is created is the page's business, so it is an argument.
\<close>

record 'n calculator =
  state :: "'n CalculatorState"
  display_text :: string
  expression_text :: string
  error_text :: string

definition createCalculator :: "string \<Rightarrow> string \<Rightarrow> string \<Rightarrow> 'n calculator" where
  "createCalculator d e r =
     \<lparr>state = \<lparr>currentValue = ''0'', previousValue = None, operation = None,
                shouldResetDisplay = False, currentExpression = ''''\<rparr>,
      display_text = d, expression_text = e, error_text = r\<rparr>"

definition updateDisplay :: "string \<Rightarrow> 'n calculator \<Rightarrow> 'n calculator" where
  "updateDisplay v c =
     c\<lparr>display_text := v, expression_text := currentExpression (state c)\<rparr>"

definition setError :: "string \<Rightarrow> 'n calculator \<Rightarrow> 'n calculator" where
  "setError message c = c\<lparr>error_text := message\<rparr>"

definition clearError :: "'n calculator \<Rightarrow> 'n calculator" where
  "clearError = setError ''''"

section \<open>The handlers (lines 52 to 161)\<close>

definition startsWith :: "string \<Rightarrow> string \<Rightarrow> bool" where
  "startsWith s p = (take (length p) s = p)"

definition handleBackspace :: "'n calculator \<Rightarrow> 'n calculator" where
  "handleBackspace c =
     (let s = state c;
          c' = (if length (currentValue s) = 1 \<or>
                   (startsWith (currentValue s) ''-'' \<and> length (currentValue s) = 2)
                then c\<lparr>state := s\<lparr>currentValue := ''0''\<rparr>\<rparr>
                else c\<lparr>state := s\<lparr>currentValue := butlast (currentValue s)\<rparr>\<rparr>)
      in updateDisplay (currentValue (state c')) c')"

definition handleSign :: "'n calculator \<Rightarrow> 'n calculator" where
  "handleSign c =
     (let s = state c in
      if currentValue s \<noteq> ''0'' then
        (let newValue = (if startsWith (currentValue s) ''-''
                         then drop 1 (currentValue s)
                         else ''-'' @ currentValue s)
         in updateDisplay newValue (c\<lparr>state := s\<lparr>currentValue := newValue\<rparr>\<rparr>))
      else c)"

definition performOperation :: "'n runtime \<Rightarrow> 'n calculator \<Rightarrow> 'n calculator" where
  "performOperation rt c =
     (let s = state c in
      case operation s of
        None \<Rightarrow> c
      | Some f \<Rightarrow>
         (case previousValue s of
            None \<Rightarrow> c
          | Some p \<Rightarrow>
             (let current = parseFloat rt (currentValue s) in
              case call rt f p (Some current) of
                Inr result \<Rightarrow>
                  (let c' = c\<lparr>state :=
                              \<lparr>currentValue = toString rt result,
                               previousValue = None,
                               operation = None,
                               shouldResetDisplay = True,
                               currentExpression =
                                 currentExpression s @ '' '' @ toString rt current @ '' =''\<rparr>\<rparr>
                   in updateDisplay (currentValue (state c')) (clearError c'))
              | Inl message \<Rightarrow>
                  (let c' = setError message c
                   in c'\<lparr>state := (state c')\<lparr>shouldResetDisplay := True\<rparr>\<rparr>))))"

definition handleNumber :: "string \<Rightarrow> 'n calculator \<Rightarrow> 'n calculator" where
  "handleNumber v c =
     (let s = state c;
          c' = (if shouldResetDisplay s
                then c\<lparr>state := s\<lparr>currentValue := v, shouldResetDisplay := False\<rparr>\<rparr>
                else c\<lparr>state := s\<lparr>currentValue :=
                        (if currentValue s = ''0'' then v else currentValue s @ v)\<rparr>\<rparr>)
      in updateDisplay (currentValue (state c')) c')"

text \<open>
  In \<^verbatim>\<open>handleOperation\<close> the state is assigned only after the operation has returned, so
  the \<^verbatim>\<open>catch\<close> block sees the state of before the attempt. \<open>attempt\<close> is the body of the
  \<^verbatim>\<open>try\<close> up to that assignment: the new state, or the message thrown.
\<close>

definition attempt ::
  "'n runtime \<Rightarrow> Operation \<Rightarrow> string \<Rightarrow> bool \<Rightarrow> 'n CalculatorState \<Rightarrow>
   string + 'n CalculatorState" where
  "attempt rt opn opSymbol isUnary s =
     (if \<not> isUnary \<and> previousValue s \<noteq> None \<and> operation s \<noteq> None \<and> \<not> shouldResetDisplay s
      then
        (let currentNum = parseFloat rt (currentValue s) in
         case call rt (the (operation s)) (the (previousValue s)) (Some currentNum) of
           Inl message \<Rightarrow> Inl message
         | Inr result \<Rightarrow>
             Inr (s\<lparr>currentValue := toString rt result,
                    previousValue := Some result,
                    operation := Some opn,
                    currentExpression :=
                      currentExpression s @ '' '' @ toString rt currentNum @ '' '' @ opSymbol,
                    shouldResetDisplay := True\<rparr>))
      else if isUnary then
        (case call rt opn (parseFloat rt (currentValue s)) None of
           Inl message \<Rightarrow> Inl message
         | Inr result \<Rightarrow>
             Inr (s\<lparr>currentValue := toString rt result,
                    shouldResetDisplay := True,
                    currentExpression := opSymbol @ ''('' @ currentValue s @ '')''\<rparr>))
      else
        Inr (s\<lparr>previousValue := Some (parseFloat rt (currentValue s)),
               operation := Some opn,
               shouldResetDisplay := True,
               currentExpression := currentValue s @ '' '' @ opSymbol\<rparr>))"

definition handleOperation ::
  "'n runtime \<Rightarrow> Operation \<Rightarrow> string \<Rightarrow> bool \<Rightarrow> 'n calculator \<Rightarrow> 'n calculator" where
  "handleOperation rt opn opSymbol isUnary c =
     (case attempt rt opn opSymbol isUnary (state c) of
        Inr s' \<Rightarrow>
          (let c' = c\<lparr>state := s'\<rparr>
           in clearError (updateDisplay (currentValue (state c')) c'))
      | Inl message \<Rightarrow>
          setError message (c\<lparr>state := (state c)\<lparr>shouldResetDisplay := True\<rparr>\<rparr>))"

definition handleClear :: "'n calculator \<Rightarrow> 'n calculator" where
  "handleClear c =
     clearError (updateDisplay ''0''
       (c\<lparr>state := \<lparr>currentValue = ''0'', previousValue = None, operation = None,
                     shouldResetDisplay = False, currentExpression = ''''\<rparr>\<rparr>))"

section \<open>The six commands\<close>

text \<open>
  What the click listeners (lines 211 to 265) call on the object \<^verbatim>\<open>createCalculator\<close>
  returns: one command per handler, run in the order received.
\<close>

datatype command =
    InputDigit string
  | ApplyOperator Operation string bool
  | Equals
  | Backspace
  | ToggleSign
  | Clear

fun exec :: "'n runtime \<Rightarrow> command \<Rightarrow> 'n calculator \<Rightarrow> 'n calculator" where
  "exec rt (InputDigit v) c = handleNumber v c"
| "exec rt (ApplyOperator opn opSymbol isUnary) c = handleOperation rt opn opSymbol isUnary c"
| "exec rt Equals c = performOperation rt c"
| "exec rt Backspace c = handleBackspace c"
| "exec rt ToggleSign c = handleSign c"
| "exec rt Clear c = handleClear c"

fun run :: "'n runtime \<Rightarrow> command list \<Rightarrow> 'n calculator \<Rightarrow> 'n calculator" where
  "run rt [] c = c"
| "run rt (x # xs) c = run rt xs (exec rt x c)"

section \<open>An integer runtime, for running concrete traces\<close>

text \<open>
  To run a trace a runtime is needed. \<open>int_runtime\<close> computes the primitives on integers
  of magnitude up to \<open>2 ^ 53\<close>, where double arithmetic is exact and \<^verbatim>\<open>toString\<close> prints
  plain decimal digits. It has one more value, \<open>NaN\<close>, which is what JavaScript yields for
  an unreadable string or the square root of a negative number; a result outside the
  integers (a fraction, an infinity, a magnitude beyond \<open>2 ^ 53\<close>, a string with an
  exponent) is not represented and also becomes \<open>NaN\<close>. It is meant for traces that stay
  within the integers, and no theorem about all runtimes depends on it.
\<close>

datatype number = Integer int | NaN

definition norm :: "int \<Rightarrow> number" where
  "norm i = (if \<bar>i\<bar> \<le> 9007199254740992 then Integer i else NaN)"

definition digit_char :: "nat \<Rightarrow> char" where
  "digit_char n = ''0123456789'' ! n"

fun show_nat :: "nat \<Rightarrow> string" where
  "show_nat n = (if n < 10 then [digit_char n] else show_nat (n div 10) @ [digit_char (n mod 10)])"

declare show_nat.simps [simp del]

definition is_digit :: "char \<Rightarrow> bool" where
  "is_digit c = (c \<in> set ''0123456789'')"

definition digit_value :: "char \<Rightarrow> nat" where
  "digit_value c = of_char c - 48"

definition read_nat :: "string \<Rightarrow> nat" where
  "read_nat ds = foldl (\<lambda>acc c. 10 * acc + digit_value c) 0 ds"

definition int_parseFloat :: "string \<Rightarrow> number" where
  "int_parseFloat s =
     (let neg = startsWith s ''-'';
          body = (if neg \<or> startsWith s ''+'' then drop 1 s else s);
          ds = takeWhile is_digit body;
          r = dropWhile is_digit body;
          dot = startsWith r ''.'';
          frac = (if dot then takeWhile is_digit (drop 1 r) else []);
          r' = (if dot then dropWhile is_digit (drop 1 r) else r)
      in if ds = [] \<and> frac = [] then NaN
         else if filter (\<lambda>c. c \<noteq> CHR ''0'') frac \<noteq> [] \<or> startsWith r' ''e'' \<or> startsWith r' ''E''
         then NaN
         else norm (if neg then - int (read_nat ds) else int (read_nat ds)))"

definition int_toString :: "number \<Rightarrow> string" where
  "int_toString x =
     (case x of
        NaN \<Rightarrow> ''NaN''
      | Integer i \<Rightarrow> if i < 0 then ''-'' @ show_nat (nat (- i)) else show_nat (nat i))"

definition lift2 :: "(int \<Rightarrow> int \<Rightarrow> int) \<Rightarrow> number \<Rightarrow> number \<Rightarrow> number" where
  "lift2 f x y =
     (case x of NaN \<Rightarrow> NaN
      | Integer i \<Rightarrow> (case y of NaN \<Rightarrow> NaN | Integer j \<Rightarrow> norm (f i j)))"

definition int_div :: "number \<Rightarrow> number \<Rightarrow> number" where
  "int_div x y =
     (case x of NaN \<Rightarrow> NaN
      | Integer i \<Rightarrow>
         (case y of NaN \<Rightarrow> NaN
          | Integer j \<Rightarrow> if j \<noteq> 0 \<and> j dvd i then norm (i div j) else NaN))"

definition int_pow :: "number \<Rightarrow> number \<Rightarrow> number" where
  "int_pow x y =
     (case y of NaN \<Rightarrow> NaN
      | Integer j \<Rightarrow>
         if j = 0 then Integer 1
         else (case x of NaN \<Rightarrow> NaN
               | Integer i \<Rightarrow>
                  if 0 < j then norm (i ^ nat j)
                  else if i = 1 then Integer 1 else NaN))"

definition int_sqrt :: "number \<Rightarrow> number" where
  "int_sqrt x =
     (case x of NaN \<Rightarrow> NaN
      | Integer i \<Rightarrow>
         if i < 0 then NaN
         else (case find (\<lambda>r. r * r = nat i) [0..<Suc (nat i)] of
                 Some r \<Rightarrow> Integer (int r)
               | None \<Rightarrow> NaN))"

definition int_runtime :: "number runtime" where
  "int_runtime =
     \<lparr>parseFloat = int_parseFloat,
      toString = int_toString,
      num_add = lift2 (+),
      num_sub = lift2 (-),
      num_mul = lift2 (*),
      num_div = int_div,
      Math_pow = int_pow,
      Math_sqrt = int_sqrt,
      is_zero = (\<lambda>x. x = Integer 0),
      is_negative = (\<lambda>x. case x of NaN \<Rightarrow> False | Integer i \<Rightarrow> i < 0),
      num_0 = Integer 0,
      num_1 = Integer 1\<rparr>"

section \<open>Properties\<close>

text \<open>The both-or-neither condition on the pending operator and its left operand.\<close>

definition pending_consistent :: "'n CalculatorState \<Rightarrow> bool" where
  "pending_consistent s = ((operation s = None) = (previousValue s = None))"

text \<open>A digit input is one character, a decimal digit or the point.\<close>

definition digit_key :: "string \<Rightarrow> bool" where
  "digit_key v = (length v = 1 \<and> (is_digit (hd v) \<or> hd v = CHR ''.''))"

fun valid_command :: "command \<Rightarrow> bool" where
  "valid_command (InputDigit v) = digit_key v"
| "valid_command _ = True"

text \<open>
  A numeric literal in text form: an optional sign, then digits with at most one point
  among them, and at least one digit.
\<close>

definition numeric_literal :: "string \<Rightarrow> bool" where
  "numeric_literal s =
     (let body = (if startsWith s ''-'' \<or> startsWith s ''+'' then drop 1 s else s)
      in list_all (\<lambda>c. is_digit c \<or> c = CHR ''.'') body \<and>
         list_ex is_digit body \<and>
         length (filter (\<lambda>c. c = CHR ''.'') body) \<le> 1)"

text \<open>
  What keeps the displayed text from running empty: it is not empty, not a lone minus
  sign, and does not begin with two minus signs.
\<close>

definition leading_ok :: "string \<Rightarrow> bool" where
  "leading_ok s = (s \<noteq> [] \<and> s \<noteq> ''-'' \<and> \<not> startsWith s ''--'')"

text \<open>The commands that edit the entry: digit input, backspace and sign toggle.\<close>

fun is_edit :: "command \<Rightarrow> bool" where
  "is_edit (InputDigit v) = True"
| "is_edit Backspace = True"
| "is_edit ToggleSign = True"
| "is_edit _ = False"

text \<open>A state whose entry is the given text, nothing pending.\<close>

definition entry :: "string \<Rightarrow> number calculator" where
  "entry v =
     \<lparr>state = \<lparr>currentValue = v, previousValue = None, operation = None,
                shouldResetDisplay = False, currentExpression = ''''\<rparr>,
      display_text = v, expression_text = '''', error_text = ''''\<rparr>"

text \<open>The calculator on a page whose three elements are empty.\<close>

definition fresh :: "number calculator" where
  "fresh = createCalculator '''' '''' ''''"

text \<open>The calculator after 5, divide, 0, Equals: the division has failed.\<close>

definition after_failure :: "number calculator" where
  "after_failure =
     run int_runtime
       [InputDigit ''5'', ApplyOperator SafeDivide ''/'' False, InputDigit ''0'', Equals] fresh"

section \<open>Helper facts\<close>

lemmas handler_defs =
  handleNumber_def handleBackspace_def handleSign_def handleClear_def handleOperation_def
  performOperation_def attempt_def updateDisplay_def setError_def clearError_def Let_def

lemma exec_pending:
  "pending_consistent (state c) \<Longrightarrow> pending_consistent (state (exec rt cmd c))"
  by (cases cmd) (auto simp: pending_consistent_def handler_defs split: option.splits sum.splits)

lemma run_pending:
  "pending_consistent (state c) \<Longrightarrow> pending_consistent (state (run rt cmds c))"
  by (induction cmds arbitrary: c) (simp_all add: exec_pending)

lemma leading_ok_append: "leading_ok s \<Longrightarrow> leading_ok (s @ v)"
  by (cases s; cases "tl s"; cases v) (auto simp: leading_ok_def startsWith_def)

lemma leading_ok_butlast:
  "leading_ok s \<Longrightarrow> length s \<noteq> 1 \<Longrightarrow> \<not> (startsWith s ''-'' \<and> length s = 2) \<Longrightarrow>
   leading_ok (butlast s)"
  by (cases s; cases "tl s"; cases "tl (tl s)") (auto simp: leading_ok_def startsWith_def)

lemma leading_ok_toggle:
  "leading_ok s \<Longrightarrow> leading_ok (if startsWith s ''-'' then drop 1 s else ''-'' @ s)"
  by (cases s; cases "tl s") (auto simp: leading_ok_def startsWith_def)

lemma leading_ok_key: "digit_key v \<Longrightarrow> leading_ok v"
  by (cases v) (auto simp: digit_key_def leading_ok_def startsWith_def is_digit_def)

lemma leading_ok_zero: "leading_ok ''0''"
  by (simp add: leading_ok_def startsWith_def)

lemma exec_leading:
  assumes "\<And>n. leading_ok (toString rt n)" and "valid_command cmd"
    and "leading_ok (currentValue (state c))"
  shows "leading_ok (currentValue (state (exec rt cmd c)))"
proof (cases cmd)
  case (InputDigit v)
  with assms show ?thesis
    by (simp add: handleNumber_def updateDisplay_def Let_def leading_ok_key leading_ok_append)
next
  case (ApplyOperator opn opSymbol isUnary)
  with assms show ?thesis
    by (auto simp: handleOperation_def attempt_def updateDisplay_def setError_def
        clearError_def Let_def split: sum.splits if_splits)
next
  case Equals
  with assms show ?thesis
    by (auto simp: performOperation_def updateDisplay_def setError_def clearError_def Let_def
        split: sum.splits option.splits)
next
  case Backspace
  with assms show ?thesis
    using leading_ok_butlast [of "currentValue (state c)"]
    by (auto simp: handleBackspace_def updateDisplay_def Let_def leading_ok_zero)
next
  case ToggleSign
  with assms show ?thesis
    using leading_ok_toggle [of "currentValue (state c)"]
    by (auto simp: handleSign_def updateDisplay_def Let_def)
next
  case Clear
  then show ?thesis
    by (simp add: handleClear_def updateDisplay_def setError_def clearError_def leading_ok_zero)
qed

lemma run_leading:
  assumes "\<And>n. leading_ok (toString rt n)"
  shows "list_all valid_command cmds \<Longrightarrow> leading_ok (currentValue (state c)) \<Longrightarrow>
         leading_ok (currentValue (state (run rt cmds c)))"
  by (induction cmds arbitrary: c) (simp_all add: exec_leading assms)

lemma run_edits_error:
  "list_all is_edit cmds \<Longrightarrow> error_text (run rt cmds c) = error_text c"
proof (induction cmds arbitrary: c)
  case Nil
  then show ?case by simp
next
  case (Cons x xs)
  then show ?case by (cases x) (simp_all add: handler_defs)
qed

subsection \<open>The integer runtime\<close>

lemma digit_char_digit: "n < 10 \<Longrightarrow> is_digit (digit_char n)"
  unfolding is_digit_def digit_char_def by (rule nth_mem) simp

lemma show_nat_hd: "show_nat n \<noteq> [] \<and> is_digit (hd (show_nat n))"
proof (induction n rule: show_nat.induct)
  case (1 n)
  show ?case
  proof (cases "n < 10")
    case True
    then show ?thesis by (subst (1 2) show_nat.simps) (simp add: digit_char_digit)
  next
    case False
    with 1 show ?thesis by (subst (1 2) show_nat.simps) simp
  qed
qed

lemma digits_leading:
  assumes "s \<noteq> []" and "is_digit (hd s)"
  shows "leading_ok s" and "leading_ok (CHR ''-'' # s)"
  using assms by (cases s; auto simp: leading_ok_def startsWith_def is_digit_def)+

lemma int_toString_leading: "leading_ok (toString int_runtime n)"
proof (cases n)
  case (Integer i)
  then show ?thesis
    using show_nat_hd [of "nat i"] show_nat_hd [of "nat (- i)"]
    by (simp add: int_runtime_def int_toString_def digits_leading)
next
  case NaN
  then show ?thesis
    by (simp add: int_runtime_def int_toString_def leading_ok_def startsWith_def)
qed

text \<open>What the integer runtime computes on the values the traces below go through.\<close>

lemma int_reads:
  "parseFloat int_runtime ''0'' = Integer 0"
  "parseFloat int_runtime ''2'' = Integer 2"
  "parseFloat int_runtime ''3'' = Integer 3"
  "parseFloat int_runtime ''5'' = Integer 5"
  "parseFloat int_runtime ''9'' = Integer 9"
  "parseFloat int_runtime ''-4'' = Integer (- 4)"
  by code_simp+

lemma int_prints:
  "toString int_runtime (Integer 3) = ''3''"
  "toString int_runtime (Integer 5) = ''5''"
  "toString int_runtime (Integer 8) = ''8''"
  "toString int_runtime (Integer 9) = ''9''"
  "toString int_runtime (Integer 16) = ''16''"
  by code_simp+

lemma int_computes:
  "num_add int_runtime (Integer 5) (Integer 3) = Integer 8"
  "num_add int_runtime (Integer 2) (Integer 3) = Integer 5"
  "num_mul int_runtime (Integer 8) (Integer 2) = Integer 16"
  "num_div int_runtime (Integer 5) (Integer 5) = Integer 1"
  "Math_sqrt int_runtime (Integer 9) = Integer 3"
  "\<not> is_zero int_runtime (Integer 5)"
  "is_zero int_runtime (Integer 0)"
  "is_negative int_runtime (Integer (- 4))"
  "\<not> is_negative int_runtime (Integer 9)"
  by code_simp+

section \<open>The claims\<close>

subsection \<open>Digit input on a display of 0\<close>

text \<open>
  Claim C1, as the code has it: with \<open>shouldResetDisplay\<close> false and \<open>currentValue\<close>
  exactly \<open>0\<close>, the text typed replaces the display whatever it is. So typing \<open>0\<close> leaves
  \<open>0\<close>, typing a non-zero digit \<open>d\<close> gives \<open>d\<close>, and typing the point gives the point
  alone: it is substituted like any other character, not appended.
\<close>

theorem handleNumber_on_zero:
  assumes "currentValue (state c) = ''0''" and "\<not> shouldResetDisplay (state c)"
  shows "currentValue (state (handleNumber v c)) = v \<and> display_text (handleNumber v c) = v"
  using assms by (simp add: handleNumber_def updateDisplay_def Let_def)

theorem handleNumber_on_zero_witness:
  "currentValue (state fresh) = ''0'' \<and> \<not> shouldResetDisplay (state fresh) \<and>
   currentValue (state (handleNumber ''0'' fresh)) = ''0'' \<and>
   currentValue (state (handleNumber ''7'' fresh)) = ''7'' \<and>
   currentValue (state (handleNumber ''.'' fresh)) = ''.''"
proof -
  have h: "currentValue (state fresh) = ''0''" "\<not> shouldResetDisplay (state fresh)"
    by (simp_all add: fresh_def createCalculator_def)
  show ?thesis
    using h handleNumber_on_zero [OF h, of "''0''"] handleNumber_on_zero [OF h, of "''7''"]
      handleNumber_on_zero [OF h, of "''.''"]
    by simp
qed

text \<open>The claim as stated asks for \<open>0.\<close> after the point; the code gives the point alone.\<close>

theorem handleNumber_point_counterexample:
  "currentValue (state fresh) = ''0'' \<and> \<not> shouldResetDisplay (state fresh) \<and>
   currentValue (state (handleNumber ''.'' fresh)) \<noteq> ''0.''"
  by (simp add: fresh_def createCalculator_def handleNumber_def updateDisplay_def Let_def)

subsection \<open>The text of the display\<close>

text \<open>
  Claim C2, as the code has it: in every state reached from the initial one by commands
  whose digit inputs are single characters, digits or the point, \<open>currentValue\<close> is never
  the empty string, provided the runtime prints every number as a non-empty text that is
  not a lone minus sign and does not begin with two (as JavaScript does). It need not be
  a numeric literal: a point typed on \<open>0\<close> is shown alone, and a result is shown as it
  prints.
\<close>

theorem currentValue_never_empty:
  assumes "\<And>n. leading_ok (toString rt n)" and "list_all valid_command cmds"
  shows "currentValue (state (run rt cmds (createCalculator d e r))) \<noteq> []"
proof -
  have "leading_ok (currentValue (state (createCalculator d e r :: 'a calculator)))"
    by (simp add: createCalculator_def leading_ok_zero)
  then have "leading_ok (currentValue (state (run rt cmds (createCalculator d e r))))"
    using assms by (simp add: run_leading)
  then show ?thesis by (simp add: leading_ok_def)
qed

theorem currentValue_never_empty_witness:
  "(\<forall>n. leading_ok (toString int_runtime n)) \<and>
   list_all valid_command [InputDigit ''4'', ToggleSign, Backspace, InputDigit ''.'', Backspace] \<and>
   currentValue (state (run int_runtime
     [InputDigit ''4'', ToggleSign, Backspace, InputDigit ''.'', Backspace] fresh)) \<noteq> []"
proof -
  have v: "list_all valid_command
      [InputDigit ''4'', ToggleSign, Backspace, InputDigit ''.'', Backspace]"
    by (simp add: digit_key_def is_digit_def)
  show ?thesis
    using v currentValue_never_empty [of int_runtime _ "''''" "''''" "''''", OF int_toString_leading v]
    by (simp add: int_toString_leading fresh_def)
qed

text \<open>
  Three texts that are no numeric literal: two points after 1 and the point twice; the
  point alone after the point is typed first; \<open>NaN\<close> after the point is added to itself.
\<close>

theorem numeric_literal_counterexample:
  "list_all valid_command [InputDigit ''1'', InputDigit ''.'', InputDigit ''.''] \<and>
   currentValue (state (run int_runtime
     [InputDigit ''1'', InputDigit ''.'', InputDigit ''.''] fresh)) = ''1..'' \<and>
   \<not> numeric_literal (currentValue (state (run int_runtime
     [InputDigit ''1'', InputDigit ''.'', InputDigit ''.''] fresh))) \<and>
   currentValue (state (run int_runtime [InputDigit ''.''] fresh)) = ''.'' \<and>
   \<not> numeric_literal (currentValue (state (run int_runtime [InputDigit ''.''] fresh))) \<and>
   list_all valid_command
     [InputDigit ''.'', ApplyOperator Add ''+'' False, InputDigit ''.'', Equals] \<and>
   currentValue (state (run int_runtime
     [InputDigit ''.'', ApplyOperator Add ''+'' False, InputDigit ''.'', Equals] fresh))
     = ''NaN'' \<and>
   \<not> numeric_literal (currentValue (state (run int_runtime
     [InputDigit ''.'', ApplyOperator Add ''+'' False, InputDigit ''.'', Equals] fresh)))"
proof -
  have p: "parseFloat int_runtime ''.'' = NaN" "toString int_runtime NaN = ''NaN''"
    "num_add int_runtime NaN NaN = NaN"
    by code_simp+
  show ?thesis
    by (simp add: p digit_key_def is_digit_def numeric_literal_def startsWith_def handler_defs
        add_def default_to_def fresh_def createCalculator_def)
qed

subsection \<open>Division by zero at Equals\<close>

text \<open>
  Claim C3: from the initial state, 5, divide, 0, Equals gives the error message
  \<open>Cannot divide by zero\<close>; the display still shows the operand \<open>0\<close>, the pending operator
  and left operand are those of before Equals, and \<open>shouldResetDisplay\<close> is true. The
  runtime is any in which the text \<open>0\<close> reads as zero.
\<close>

theorem divide_by_zero_at_equals:
  assumes "is_zero rt (parseFloat rt ''0'')"
    and "c = run rt [InputDigit ''5'', ApplyOperator SafeDivide opSymbol False, InputDigit ''0'']
               (createCalculator d e r)"
    and "c' = performOperation rt c"
  shows "error_text c' = ''Cannot divide by zero'' \<and>
         display_text c' = ''0'' \<and> currentValue (state c') = ''0'' \<and>
         operation (state c') = operation (state c) \<and>
         previousValue (state c') = previousValue (state c) \<and>
         operation (state c') = Some SafeDivide \<and>
         previousValue (state c') = Some (parseFloat rt ''5'') \<and>
         shouldResetDisplay (state c')"
  using assms
  by (simp add: handler_defs createCalculator_def safeDivide_def withValidation_def)

theorem divide_by_zero_at_equals_witness:
  "is_zero int_runtime (parseFloat int_runtime ''0'') \<and>
   error_text (performOperation int_runtime (run int_runtime
     [InputDigit ''5'', ApplyOperator SafeDivide ''/'' False, InputDigit ''0''] fresh))
     = ''Cannot divide by zero'' \<and>
   display_text (performOperation int_runtime (run int_runtime
     [InputDigit ''5'', ApplyOperator SafeDivide ''/'' False, InputDigit ''0''] fresh)) = ''0'' \<and>
   previousValue (state (performOperation int_runtime (run int_runtime
     [InputDigit ''5'', ApplyOperator SafeDivide ''/'' False, InputDigit ''0''] fresh)))
     = Some (Integer 5)"
proof -
  have z: "is_zero int_runtime (parseFloat int_runtime ''0'')"
    by (simp add: int_reads int_computes)
  show ?thesis
    using z divide_by_zero_at_equals [OF z refl refl, of "''/''" "''''" "''''" "''''"]
    by (auto simp: fresh_def int_reads int_computes)
qed

subsection \<open>A failing operator press\<close>

text \<open>
  Claim C4: when the operation called by ApplyBinaryOperator throws (the pending operator
  while chaining, or the pressed operator in the unary case), the resulting state has
  \<open>shouldResetDisplay\<close> true and every other field as before the attempt, and the message
  goes to the error text of the page, not into \<open>currentValue\<close> or \<open>currentExpression\<close>.
\<close>

theorem handleOperation_failure:
  assumes "(\<not> isUnary \<and> previousValue (state c) = Some p \<and> operation (state c) = Some f \<and>
            \<not> shouldResetDisplay (state c) \<and>
            call rt f p (Some (parseFloat rt (currentValue (state c)))) = Inl m) \<or>
           (isUnary \<and> call rt opn (parseFloat rt (currentValue (state c))) None = Inl m)"
  shows "handleOperation rt opn opSymbol isUnary c =
           c\<lparr>state := (state c)\<lparr>shouldResetDisplay := True\<rparr>, error_text := m\<rparr>"
  using assms by (auto simp: handler_defs)



theorem handleOperation_failure_witness:
  "call int_runtime SafeDivide (Integer 5) (Some (parseFloat int_runtime ''0''))
     = Inl ''Cannot divide by zero'' \<and>
   handleOperation int_runtime Add ''+'' False
     ((entry ''0'')\<lparr>state := (state (entry ''0''))
        \<lparr>previousValue := Some (Integer 5), operation := Some SafeDivide\<rparr>\<rparr>) =
     (entry ''0'')\<lparr>state := (state (entry ''0''))
        \<lparr>previousValue := Some (Integer 5), operation := Some SafeDivide,
         shouldResetDisplay := True\<rparr>,
       error_text := ''Cannot divide by zero''\<rparr> \<and>
   call int_runtime SafeSqrt (parseFloat int_runtime ''-4'') None
     = Inl ''Negative number under root'' \<and>
   handleOperation int_runtime SafeSqrt ''sqrt'' True (entry ''-4'') =
     (entry ''-4'')\<lparr>state := (state (entry ''-4''))\<lparr>shouldResetDisplay := True\<rparr>,
       error_text := ''Negative number under root''\<rparr>"
proof -
  let ?c = "(entry ''0'')\<lparr>state := (state (entry ''0''))
        \<lparr>previousValue := Some (Integer 5), operation := Some SafeDivide\<rparr>\<rparr>"
  have d: "call int_runtime SafeDivide (Integer 5) (Some (parseFloat int_runtime ''0''))
      = Inl ''Cannot divide by zero''"
    by (simp add: safeDivide_def withValidation_def int_reads int_computes)
  have s: "call int_runtime SafeSqrt (parseFloat int_runtime ''-4'') None
      = Inl ''Negative number under root''"
    by (simp add: safeSqrt_def withValidation_def int_reads int_computes)
  have "handleOperation int_runtime Add ''+'' False ?c =
      ?c\<lparr>state := (state ?c)\<lparr>shouldResetDisplay := True\<rparr>,
         error_text := ''Cannot divide by zero''\<rparr>"
    using d
      handleOperation_failure [where rt = int_runtime and c = ?c and isUnary = False
        and p = "Integer 5" and f = SafeDivide and opn = Add and opSymbol = "''+''"
        and m = "''Cannot divide by zero''"]
    by (simp add: entry_def)
  moreover have "handleOperation int_runtime SafeSqrt ''sqrt'' True (entry ''-4'') =
      (entry ''-4'')\<lparr>state := (state (entry ''-4''))\<lparr>shouldResetDisplay := True\<rparr>,
         error_text := ''Negative number under root''\<rparr>"
    using s
      handleOperation_failure [where rt = int_runtime and c = "entry ''-4''" and isUnary = True
        and p = "Integer 0" and f = Add and opn = SafeSqrt and opSymbol = "''sqrt''"
        and m = "''Negative number under root''"]
    by (simp add: entry_def)
  ultimately show ?thesis using d s by simp
qed

subsection \<open>Chaining\<close>

text \<open>
  Claim C5: from the initial state, 5, add, 3, multiply, 2, Equals shows \<open>16\<close>: the
  pending addition is evaluated when multiply is pressed, and its result is the left
  operand of the multiplication. The runtime is any in which 5 + 3 is a number, here
  called eight, whose product with 2 prints as \<open>16\<close>.
\<close>

theorem chaining_left_to_right:
  assumes "num_add rt (parseFloat rt ''5'') (parseFloat rt ''3'') = eight"
    and "num_mul rt eight (parseFloat rt ''2'') = sixteen"
    and "toString rt sixteen = ''16''"
  shows "display_text (run rt
           [InputDigit ''5'', ApplyOperator Add addSymbol False, InputDigit ''3'',
            ApplyOperator Multiply mulSymbol False, InputDigit ''2'', Equals]
           (createCalculator d e r)) = ''16''"
  using assms
  by (simp add: handler_defs createCalculator_def add_def multiply_def default_to_def)

theorem chaining_left_to_right_witness:
  "num_add int_runtime (parseFloat int_runtime ''5'') (parseFloat int_runtime ''3'') = Integer 8 \<and>
   num_mul int_runtime (Integer 8) (parseFloat int_runtime ''2'') = Integer 16 \<and>
   toString int_runtime (Integer 16) = ''16'' \<and>
   display_text (run int_runtime
     [InputDigit ''5'', ApplyOperator Add ''+'' False, InputDigit ''3'',
      ApplyOperator Multiply ''*'' False, InputDigit ''2'', Equals] fresh) = ''16''"
proof -
  have h1: "num_add int_runtime (parseFloat int_runtime ''5'') (parseFloat int_runtime ''3'')
      = Integer 8"
    by (simp add: int_reads int_computes)
  have h2: "num_mul int_runtime (Integer 8) (parseFloat int_runtime ''2'') = Integer 16"
    by (simp add: int_reads int_computes)
  have h3: "toString int_runtime (Integer 16) = ''16''"
    by (simp add: int_prints)
  show ?thesis
    using h1 h2 h3 chaining_left_to_right [OF h1 h2 h3, of "''+''" "''*''" "''''" "''''" "''''"]
    by (simp add: fresh_def)
qed

subsection \<open>Equals with nothing pending\<close>

text \<open>
  Claim C6: in a state where the operator or the left operand is absent, Equals changes
  nothing, neither the state nor the texts of the page; pressed twice, it changes
  nothing both times.
\<close>

theorem performOperation_noop:
  assumes "operation (state c) = None \<or> previousValue (state c) = None"
  shows "performOperation rt c = c \<and> performOperation rt (performOperation rt c) = c"
  using assms by (auto simp: performOperation_def Let_def split: option.splits)

theorem performOperation_noop_witness:
  "operation (state fresh) = None \<and>
   performOperation int_runtime fresh = fresh \<and>
   performOperation int_runtime (performOperation int_runtime fresh) = fresh \<and>
   previousValue (state ((entry ''7'')\<lparr>state := (state (entry ''7''))\<lparr>operation := Some Add\<rparr>\<rparr>))
     = None \<and>
   performOperation int_runtime
     ((entry ''7'')\<lparr>state := (state (entry ''7''))\<lparr>operation := Some Add\<rparr>\<rparr>) =
     (entry ''7'')\<lparr>state := (state (entry ''7''))\<lparr>operation := Some Add\<rparr>\<rparr>"
proof -
  have h: "operation (state fresh) = None"
    by (simp add: fresh_def createCalculator_def)
  have k: "previousValue
      (state ((entry ''7'')\<lparr>state := (state (entry ''7''))\<lparr>operation := Some Add\<rparr>\<rparr>)) = None"
    by (simp add: entry_def)
  show ?thesis
    using h k performOperation_noop [OF disjI1, OF h, of int_runtime]
      performOperation_noop [OF disjI2, OF k, of int_runtime]
    by simp
qed

subsection \<open>The pending operator and its operand\<close>

text \<open>
  Claim C7: the initial state has neither a pending operator nor a left operand, every
  command takes a state with both or neither to a state with both or neither, and so
  every state reached from the initial one by any sequence of commands has both or
  neither.
\<close>

theorem pending_both_or_neither:
  fixes rt :: "'n runtime"
  shows "pending_consistent (state (createCalculator d e r :: 'n calculator)) \<and>
         (pending_consistent (state c) \<longrightarrow> pending_consistent (state (exec rt cmd c))) \<and>
         pending_consistent (state (run rt cmds (createCalculator d e r)))"
proof -
  have "pending_consistent (state (createCalculator d e r :: 'n calculator))"
    by (simp add: pending_consistent_def createCalculator_def)
  then show ?thesis by (simp add: exec_pending run_pending)
qed

theorem pending_both_or_neither_witness:
  "pending_consistent (state fresh) \<and>
   pending_consistent (state (exec int_runtime (ApplyOperator Add ''+'' False) fresh)) \<and>
   operation (state (exec int_runtime (ApplyOperator Add ''+'' False) fresh)) = Some Add \<and>
   pending_consistent (state (run int_runtime
     [InputDigit ''5'', ApplyOperator SafeDivide ''/'' False, InputDigit ''0'', Equals,
      ApplyOperator SafeSqrt ''sqrt'' True, Backspace, ToggleSign, Clear] fresh))"
proof -
  have "operation (state (exec int_runtime (ApplyOperator Add ''+'' False) fresh)) = Some Add"
    by (simp add: fresh_def createCalculator_def handler_defs)
  then show ?thesis
    using pending_both_or_neither [of "''''" "''''" "''''" fresh int_runtime
        "ApplyOperator Add ''+'' False"
        "[InputDigit ''5'', ApplyOperator SafeDivide ''/'' False, InputDigit ''0'', Equals,
          ApplyOperator SafeSqrt ''sqrt'' True, Backspace, ToggleSign, Clear]"]
    by (simp add: fresh_def)
qed


subsection \<open>Toggling the sign twice\<close>

text \<open>
  Claim C8, as the code has it: for a \<open>currentValue\<close> \<open>v\<close> that is neither \<open>0\<close> nor \<open>-0\<close>
  and does not begin with two minus signs, ToggleSign applied twice restores \<open>v\<close>; and
  for \<open>currentValue\<close> \<open>0\<close> a single ToggleSign changes nothing.
\<close>

theorem handleSign_twice:
  assumes "currentValue (state c) = v"
  shows "(v \<noteq> ''0'' \<and> v \<noteq> ''-0'' \<and> \<not> startsWith v ''--'' \<longrightarrow>
            currentValue (state (handleSign (handleSign c))) = v) \<and>
         (v = ''0'' \<longrightarrow> handleSign c = c)"
  using assms
  by (cases v) (auto simp: handleSign_def updateDisplay_def Let_def startsWith_def)

theorem handleSign_twice_witness:
  "currentValue (state (handleSign (handleSign (entry ''12.5'')))) = ''12.5'' \<and>
   currentValue (state (handleSign (handleSign (entry ''-4'')))) = ''-4'' \<and>
   currentValue (state (handleSign (entry ''-4''))) = ''4'' \<and>
   handleSign (entry ''0'') = entry ''0''"
proof -
  have "currentValue (state (handleSign (entry ''-4''))) = ''4''"
    by (simp add: entry_def handleSign_def updateDisplay_def Let_def startsWith_def)
  then show ?thesis
    using handleSign_twice [of "entry ''12.5''" "''12.5''"]
      handleSign_twice [of "entry ''-4''" "''-4''"]
      handleSign_twice [of "entry ''0''" "''0''"]
    by (simp add: entry_def startsWith_def)
qed

text \<open>
  The text \<open>-0\<close> is not \<open>0\<close>, the first toggle strips its sign, and the second one finds
  \<open>0\<close> and does nothing.
\<close>

theorem handleSign_twice_counterexample:
  "currentValue (state (entry ''-0'')) \<noteq> ''0'' \<and>
   currentValue (state (handleSign (entry ''-0''))) = ''0'' \<and>
   currentValue (state (handleSign (handleSign (entry ''-0'')))) = ''0'' \<and>
   currentValue (state (handleSign (handleSign (entry ''-0'')))) \<noteq> currentValue (state (entry ''-0''))"
  by (simp add: entry_def handleSign_def updateDisplay_def Let_def startsWith_def)

text \<open>
  The text \<open>-0\<close> can be reached: when a computation prints \<open>0.5\<close> (as 1 divided by 2 does
  in JavaScript), a sign toggle and two backspaces leave it.
\<close>

lemma minus_zero_reachable:
  assumes "toString rt (num_div rt (parseFloat rt ''1'') (parseFloat rt ''2'')) = ''0.5''"
    and "\<not> is_zero rt (parseFloat rt ''2'')"
  shows "currentValue (state (run rt
           [InputDigit ''1'', ApplyOperator SafeDivide opSymbol False, InputDigit ''2'', Equals,
            ToggleSign, Backspace, Backspace] (createCalculator d e r))) = ''-0''"
  using assms
  by (simp add: handler_defs createCalculator_def safeDivide_def withValidation_def
      divide_op_def default_to_def startsWith_def)

subsection \<open>A unary operation under a pending operator\<close>

text \<open>
  Claim C9: applying an operation as unary (the square root) leaves \<open>previousValue\<close> and
  \<open>operation\<close> as they were, whether it succeeds or throws. So when an operator \<open>f\<close> with
  left operand \<open>p\<close> is pending and the unary operation returns \<open>x\<close>, the next Equals
  evaluates \<open>f\<close> on \<open>p\<close> and \<open>x\<close>: its result is displayed, or its message is the error.
  Equals reads the operand back from the display, so \<open>x\<close> is taken to survive printing
  and reading, as a double does.
\<close>

theorem unary_keeps_pending:
  assumes "c' = handleOperation rt opn opSymbol True c"
  shows "operation (state c') = operation (state c) \<and>
         previousValue (state c') = previousValue (state c) \<and>
         (call rt opn (parseFloat rt (currentValue (state c))) None = Inr x \<and>
          operation (state c) = Some f \<and> previousValue (state c) = Some p \<and>
          parseFloat rt (toString rt x) = x \<longrightarrow>
            (call rt f p (Some x) = Inr res \<longrightarrow>
               currentValue (state (performOperation rt c')) = toString rt res \<and>
               display_text (performOperation rt c') = toString rt res) \<and>
            (call rt f p (Some x) = Inl m \<longrightarrow>
               error_text (performOperation rt c') = m \<and>
               operation (state (performOperation rt c')) = Some f \<and>
               previousValue (state (performOperation rt c')) = Some p))"
  using assms by (auto simp: handler_defs split: sum.splits)

theorem unary_keeps_pending_witness:
  "call int_runtime SafeSqrt (parseFloat int_runtime ''9'') None = Inr (Integer 3) \<and>
   parseFloat int_runtime (toString int_runtime (Integer 3)) = Integer 3 \<and>
   call int_runtime Add (Integer 2) (Some (Integer 3)) = Inr (Integer 5) \<and>
   operation (state (run int_runtime
     [InputDigit ''2'', ApplyOperator Add ''+'' False, InputDigit ''9'',
      ApplyOperator SafeSqrt ''sqrt'' True] fresh)) = Some Add \<and>
   previousValue (state (run int_runtime
     [InputDigit ''2'', ApplyOperator Add ''+'' False, InputDigit ''9'',
      ApplyOperator SafeSqrt ''sqrt'' True] fresh)) = Some (Integer 2) \<and>
   display_text (run int_runtime
     [InputDigit ''2'', ApplyOperator Add ''+'' False, InputDigit ''9'',
      ApplyOperator SafeSqrt ''sqrt'' True, Equals] fresh) = ''5''"
proof -
  let ?c = "run int_runtime
     [InputDigit ''2'', ApplyOperator Add ''+'' False, InputDigit ''9''] fresh"
  have c: "operation (state ?c) = Some Add" "previousValue (state ?c) = Some (Integer 2)"
      "currentValue (state ?c) = ''9''"
    by (simp_all add: fresh_def createCalculator_def handler_defs int_reads)
  have s: "call int_runtime SafeSqrt (parseFloat int_runtime ''9'') None = Inr (Integer 3)"
    by (simp add: safeSqrt_def withValidation_def sqrt_op_def int_reads int_computes)
  have rd: "parseFloat int_runtime (toString int_runtime (Integer 3)) = Integer 3"
    by (simp add: int_prints int_reads)
  have a: "call int_runtime Add (Integer 2) (Some (Integer 3)) = Inr (Integer 5)"
    by (simp add: add_def default_to_def int_computes)
  show ?thesis
    using s rd a c
      unary_keeps_pending [where rt = int_runtime and c = ?c and opn = SafeSqrt
        and opSymbol = "''sqrt''" and x = "Integer 3" and f = Add and p = "Integer 2"
        and res = "Integer 5" and m = "''''", OF refl]
    by (simp add: int_prints)
qed

subsection \<open>The error message\<close>

text \<open>
  Claim C10: the error text is emptied by every ApplyBinaryOperator whose operation does
  not throw, by every Equals that evaluates a pending operator without a throw, and by
  every Clear. InputDigit, Backspace and ToggleSign never change it, so after a failure
  the message stays through any sequence of them.
\<close>

theorem error_text_cleared_or_kept:
  "(attempt rt opn opSymbol isUnary (state c) = Inr s' \<longrightarrow>
      error_text (handleOperation rt opn opSymbol isUnary c) = '''') \<and>
   (operation (state c) = Some f \<and> previousValue (state c) = Some p \<and>
    call rt f p (Some (parseFloat rt (currentValue (state c)))) = Inr res \<longrightarrow>
      error_text (performOperation rt c) = '''') \<and>
   error_text (handleClear c) = '''' \<and>
   error_text (handleNumber v c) = error_text c \<and>
   error_text (handleBackspace c) = error_text c \<and>
   error_text (handleSign c) = error_text c \<and>
   (list_all is_edit cmds \<longrightarrow> error_text (run rt cmds c) = error_text c)"
  by (auto simp: handler_defs run_edits_error)

theorem error_text_cleared_or_kept_witness:
  "error_text after_failure = ''Cannot divide by zero'' \<and>
   error_text (run int_runtime [InputDigit ''7'', Backspace, ToggleSign] after_failure)
     = ''Cannot divide by zero'' \<and>
   error_text (handleOperation int_runtime Add ''+'' False after_failure) = '''' \<and>
   error_text (performOperation int_runtime (handleNumber ''5'' after_failure)) = '''' \<and>
   error_text (handleClear after_failure) = ''''"
proof -
  have c: "state after_failure = \<lparr>currentValue = ''0'', previousValue = Some (Integer 5),
      operation = Some SafeDivide, shouldResetDisplay = True, currentExpression = ''5 /''\<rparr>"
    "error_text after_failure = ''Cannot divide by zero''"
    by (simp_all add: after_failure_def fresh_def createCalculator_def handler_defs
        safeDivide_def withValidation_def int_reads int_computes)
  obtain s1 where s1: "attempt int_runtime Add ''+'' False (state after_failure) = Inr s1"
    by (simp add: c attempt_def)
  let ?d = "handleNumber ''5'' after_failure"
  have d: "operation (state ?d) = Some SafeDivide" "previousValue (state ?d) = Some (Integer 5)"
    "call int_runtime SafeDivide (Integer 5)
       (Some (parseFloat int_runtime (currentValue (state ?d)))) = Inr (Integer 1)"
    by (simp_all add: c handleNumber_def updateDisplay_def Let_def safeDivide_def
        withValidation_def divide_op_def default_to_def int_reads int_computes)
  have e: "list_all is_edit [InputDigit ''7'', Backspace, ToggleSign]"
    by simp
  note t1 = error_text_cleared_or_kept [where rt = int_runtime and c = after_failure
      and opn = Add and opSymbol = "''+''" and isUnary = False and s' = s1
      and cmds = "[InputDigit ''7'', Backspace, ToggleSign]"]
  note t2 = error_text_cleared_or_kept [where rt = int_runtime and c = ?d
      and f = SafeDivide and p = "Integer 5" and res = "Integer 1"]
  from t1 s1 e have "error_text (handleOperation int_runtime Add ''+'' False after_failure) = ''''"
    and "error_text (handleClear after_failure) = ''''"
    and "error_text (run int_runtime [InputDigit ''7'', Backspace, ToggleSign] after_failure)
      = error_text after_failure"
    by blast+
  moreover from t2 d have "error_text (performOperation int_runtime ?d) = ''''"
    by blast
  ultimately show ?thesis
    using c(2) by simp
qed

end
